theory Spec2Isabelle
  imports Main
begin

section \<open>Go strings as byte lists\<close>

text \<open>
  A Go \<^verbatim>\<open>string\<close> is a sequence of bytes; \<^verbatim>\<open>len\<close>, indexing and slicing count
  bytes. It is modelled by \<^typ>\<open>string\<close>, a list of 8-bit characters, holding the UTF-8
  encoding of the text. The functions of package \<^verbatim>\<open>strings\<close> that the scraper calls
  are modelled below on that representation.
\<close>

definition byte :: "char \<Rightarrow> nat" where
  "byte c = of_char c"

definition isDigit :: "char \<Rightarrow> bool" where
  "isDigit c = (48 \<le> byte c \<and> byte c \<le> 57)"

definition isUpper :: "char \<Rightarrow> bool" where
  "isUpper c = (65 \<le> byte c \<and> byte c \<le> 90)"

definition isLower :: "char \<Rightarrow> bool" where
  "isLower c = (97 \<le> byte c \<and> byte c \<le> 122)"

text \<open>\<^verbatim>\<open>strings.HasPrefix(s, p)\<close>.\<close>

fun HasPrefix :: "string \<Rightarrow> string \<Rightarrow> bool" where
  "HasPrefix s [] = True"
| "HasPrefix [] (p # ps) = False"
| "HasPrefix (c # cs) (p # ps) = (c = p \<and> HasPrefix cs ps)"

text \<open>\<^verbatim>\<open>strings.Index(s, sub)\<close>: the byte index of the first occurrence, \<open>None\<close> for Go's -1.\<close>

fun Index :: "string \<Rightarrow> string \<Rightarrow> nat option" where
  "Index [] sub = (if sub = [] then Some 0 else None)"
| "Index (c # cs) sub =
     (if HasPrefix (c # cs) sub then Some 0 else map_option Suc (Index cs sub))"

definition Contains :: "string \<Rightarrow> string \<Rightarrow> bool" where
  "Contains s sub = (Index s sub \<noteq> None)"

text \<open>\<^verbatim>\<open>strings.ContainsAny(s, chars)\<close>, for a set \<open>chars\<close> of ASCII characters.\<close>

definition ContainsAny :: "string \<Rightarrow> string \<Rightarrow> bool" where
  "ContainsAny s chars = list_ex (\<lambda>c. List.member chars c) s"

text \<open>
  White space as \<^verbatim>\<open>unicode.IsSpace\<close> has it: the ASCII characters tab, line feed,
  vertical tab, form feed, carriage return and space, and the UTF-8 encodings of U+0085,
  U+00A0, U+1680, U+2000 to U+200A, U+2028, U+2029, U+202F, U+205F and U+3000.
\<close>

definition spaceRunes :: "string list" where
  "spaceRunes =
     map (\<lambda>c. [c]) [CHR 0x09, CHR 0x0A, CHR 0x0B, CHR 0x0C, CHR 0x0D, CHR 0x20] @
     [[CHR 0xC2, CHR 0x85], [CHR 0xC2, CHR 0xA0], [CHR 0xE1, CHR 0x9A, CHR 0x80]] @
     map (\<lambda>c. [CHR 0xE2, CHR 0x80, c])
       [CHR 0x80, CHR 0x81, CHR 0x82, CHR 0x83, CHR 0x84, CHR 0x85, CHR 0x86, CHR 0x87,
        CHR 0x88, CHR 0x89, CHR 0x8A, CHR 0xA8, CHR 0xA9, CHR 0xAF] @
     [[CHR 0xE2, CHR 0x81, CHR 0x9F], [CHR 0xE3, CHR 0x80, CHR 0x80]]"

text \<open>Drops from the front of \<open>s\<close> every leading occurrence of one of the tokens.\<close>

function stripLeading :: "string list \<Rightarrow> string \<Rightarrow> string" where
  "stripLeading toks s =
     (case find (\<lambda>t. t \<noteq> [] \<and> HasPrefix s t) toks of
        None \<Rightarrow> s
      | Some t \<Rightarrow> if s = [] then s else stripLeading toks (drop (length t) s))"
  by pat_completeness auto
termination
proof (relation "measure (\<lambda>(toks, s). length s)")
  show "wf (measure (\<lambda>(toks, s). length s))" by simp
next
  fix toks :: "string list" and s t :: string
  assume f: "find (\<lambda>t. t \<noteq> [] \<and> HasPrefix s t) toks = Some t" and ne: "s \<noteq> []"
  from f have "t \<noteq> []" by (auto simp: find_Some_iff)
  with ne show "((toks, drop (length t) s), (toks, s)) \<in> measure (\<lambda>(toks, s). length s)"
    by simp
qed

text \<open>
  \<^verbatim>\<open>strings.TrimSpace(s)\<close>: the white-space runes at the front are removed, then those
  at the back (the encoded runes read backwards).
\<close>

definition TrimSpace :: "string \<Rightarrow> string" where
  "TrimSpace s = rev (stripLeading (map rev spaceRunes) (rev (stripLeading spaceRunes s)))"

text \<open>
  \<^verbatim>\<open>strings.ToLower(s)\<close>. The upper-case letters of ASCII and of Latin-1 (U+00C0 to
  U+00DE without U+00D7, encoded as 0xC3 followed by 0x80 to 0x9E) are mapped to their
  lower-case partners; every other byte is kept. Go also maps the upper-case letters
  beyond U+00FF and replaces bytes that are not valid UTF-8; no statement below depends
  on such input.
\<close>

fun ToLower :: "string \<Rightarrow> string" where
  "ToLower [] = []"
| "ToLower [c] = (if isUpper c then [char_of (byte c + 32)] else [c])"
| "ToLower (c # d # cs) =
     (if byte c = 0xC3 \<and> 0x80 \<le> byte d \<and> byte d \<le> 0x9E \<and> byte d \<noteq> 0x97
      then c # char_of (byte d + 32) # ToLower cs
      else (if isUpper c then char_of (byte c + 32) else c) # ToLower (d # cs))"

text \<open>
  \<^verbatim>\<open>strings.EqualFold(s, t)\<close>: equality under simple case folding, on the same range
  of letters as \<open>ToLower\<close>. This is Go's result whenever one of the two strings is valid
  UTF-8 over U+0000 to U+00FF and holds none of the letters k, s, U+00B5, U+00DF, U+00E5
  and U+00FF (which fold with a rune beyond U+00FF), as the literals of the scraper are.
\<close>

definition EqualFold :: "string \<Rightarrow> string \<Rightarrow> bool" where
  "EqualFold s t = (ToLower s = ToLower t)"

section \<open>Contract records\<close>

text \<open>The struct \<^verbatim>\<open>Contract\<close>; \<^verbatim>\<open>ScrapedAt\<close> is a point in time, a natural number here.\<close>

record Contract =
  ID :: string
  Description :: string
  ContractType :: string
  Status :: string
  Amount :: string
  SubmissionDate :: string
  ContractingBody :: string
  Link :: string
  PliegoLink :: string
  AnuncioLink :: string
  ScrapedAt :: nat

section \<open>Splitting the first cell into identifier and description\<close>

text \<open>
  The ten regular expressions of \<^verbatim>\<open>parseContractIDAndDescription\<close> are all of the shape
  \<^verbatim>\<open>^(...)\<close> with one capture group around a sequence of items, each item a character
  class (\<^verbatim>\<open>\d\<close>, \<^verbatim>\<open>[A-Z]\<close> or a literal character) with a greedy repetition count.
  \<open>Rep c lo hi\<close> is the class \<open>c\<close> repeated \<open>lo\<close> to \<open>hi\<close> times, without upper bound when
  \<open>hi\<close> is \<open>None\<close>.
\<close>

datatype cls = Digit | Upper | Lit char

datatype item = Rep cls nat "nat option"

fun inCls :: "cls \<Rightarrow> char \<Rightarrow> bool" where
  "inCls Digit c = isDigit c"
| "inCls Upper c = isUpper c"
| "inCls (Lit l) c = (c = l)"

text \<open>
  The remainders of \<open>s\<close> after one item, in the order in which a backtracking matcher
  tries them: a greedy repetition takes as many characters as it can first.
\<close>

fun alts :: "item \<Rightarrow> string \<Rightarrow> string list" where
  "alts (Rep c lo hi) s =
     (let n = length (takeWhile (inCls c) s);
          m = (case hi of None \<Rightarrow> n | Some h \<Rightarrow> min n h)
      in map (\<lambda>k. drop k s) (rev [lo ..< Suc m]))"

primrec matchItems :: "item list \<Rightarrow> string \<Rightarrow> string list" where
  "matchItems [] s = [s]"
| "matchItems (it # rest) s = concat (map (matchItems rest) (alts it s))"

text \<open>
  \<^verbatim>\<open>re.FindStringSubmatch(s)\<close> for \<^verbatim>\<open>^(items)\<close>: the text of the capture group of the
  first match in the matcher's order, \<open>None\<close> when there is no match.
\<close>

definition FindStringSubmatch :: "item list \<Rightarrow> string \<Rightarrow> string option" where
  "FindStringSubmatch items s =
     (case matchItems items s of
        [] \<Rightarrow> None
      | r # _ \<Rightarrow> Some (take (length s - length r) s))"

definition lit :: "string \<Rightarrow> item list" where
  "lit s = map (\<lambda>c. Rep (Lit c) 1 (Some 1)) s"

definition digits :: "nat \<Rightarrow> item" where
  "digits n = Rep Digit n (Some n)"

definition uppers :: item where
  "uppers = Rep Upper 1 None"

definition patterns :: "item list list" where
  "patterns =
    [ [Rep Digit 4 (Some 5)] @ lit ''/'' @ [digits 4],
      lit ''S-'' @ [digits 5] @ lit ''-'' @ [digits 4],
      [digits 4] @ lit ''/'' @ [digits 2],
      [Rep Upper 1 (Some 1)] @ lit ''-'' @ [digits 5] @ lit ''-'' @ [digits 4],
      [digits 4] @ lit ''-'' @ [digits 2],
      [digits 4] @ lit ''/'' @ [uppers] @ lit ''/'' @ [digits 3] @ lit ''-'' @ [digits 3]
        @ lit ''/'' @ [digits 6],
      [uppers] @ lit '' CH SU-'' @ [digits 2] @ lit ''-'' @ [digits 2],
      [digits 2] @ lit ''/'' @ [digits 2],
      [digits 2] @ lit ''/'' @ [digits 2] @ lit ''.-'' @ [uppers],
      [uppers] @ [digits 2] @ lit ''-'' @ [digits 3] @ lit ''/'' @ [digits 4] ]"

text \<open>The loop over the patterns: the first pattern that matches gives the identifier.\<close>

fun firstPattern :: "item list list \<Rightarrow> string \<Rightarrow> string option" where
  "firstPattern [] s = None"
| "firstPattern (p # ps) s =
     (case FindStringSubmatch p s of
        Some m \<Rightarrow> Some m
      | None \<Rightarrow> firstPattern ps s)"

text \<open>
  The source file holds, wherever the Spanish text has the letter o with acute accent,
  the two characters U+221A and U+2265 (the bytes 0xE2 0x88 0x9A 0xE2 0x89 0xA5), which are
  the bytes 0xC3 0xB3 of that letter read in the Mac Roman encoding. The literals below
  are the bytes of the file.
\<close>

definition oSrc :: string where
  "oSrc = [CHR 0xE2, CHR 0x88, CHR 0x9A, CHR 0xE2, CHR 0x89, CHR 0xA5]"

text \<open>The letter o with acute accent in UTF-8, as the portal's pages have it.\<close>

definition oAcute :: string where
  "oAcute = [CHR 0xC3, CHR 0xB3]"

definition descriptionStarters :: "string list" where
  "descriptionStarters =
    [ ''Suministro'', ''Adquisici'' @ oSrc @ ''n'', ''Contrataci'' @ oSrc @ ''n'',
      ''Servicios'', ''Instalaci'' @ oSrc @ ''n'',
      ''Alquiler'', ''Compra'', ''Adjudicaci'' @ oSrc @ ''n'', ''Ejecuci'' @ oSrc @ ''n'',
      ''Desarrollo'',
      ''Implementaci'' @ oSrc @ ''n'', ''Mantenimiento'', ''Reparaci'' @ oSrc @ ''n'',
      ''Renovaci'' @ oSrc @ ''n'',
      ''Ampliaci'' @ oSrc @ ''n'', ''Mejora'', ''Modernizaci'' @ oSrc @ ''n'',
      ''Equipamiento'', ''Dotaci'' @ oSrc @ ''n'' ]"

text \<open>
  The loop over the description starters: the first starter of the list that occurs at
  an index above 0 and leaves a plausible identifier in front of it splits the text.
\<close>

fun starterSplit :: "string list \<Rightarrow> string \<Rightarrow> (string \<times> string) option" where
  "starterSplit [] fullText = None"
| "starterSplit (starter # rest) fullText =
     (case Index fullText starter of
        None \<Rightarrow> starterSplit rest fullText
      | Some idx \<Rightarrow>
          if 0 < idx then
            (let potentialID = TrimSpace (take idx fullText);
                 potentialDesc = TrimSpace (drop idx fullText)
             in if 0 < length potentialID \<and> length potentialID \<le> 50 \<and>
                   (ContainsAny potentialID ''0123456789'' \<or> Contains potentialID ''/'' \<or>
                    Contains potentialID ''-'')
                then Some (potentialID, potentialDesc)
                else starterSplit rest fullText)
          else starterSplit rest fullText)"

text \<open>
  The loop over the byte indices from 1: the first capital ASCII letter whose predecessor
  is neither an ASCII letter nor a digit, with an identifier of 1 to 50 bytes in front.
\<close>

definition capitalAt :: "string \<Rightarrow> nat \<Rightarrow> bool" where
  "capitalAt fullText i =
     (isUpper (fullText ! i) \<and>
      0 < i \<and> \<not> isUpper (fullText ! (i - 1)) \<and> \<not> isLower (fullText ! (i - 1)) \<and>
      \<not> isDigit (fullText ! (i - 1)) \<and>
      0 < length (TrimSpace (take i fullText)) \<and> length (TrimSpace (take i fullText)) \<le> 50)"

definition capitalSplit :: "string \<Rightarrow> (string \<times> string) option" where
  "capitalSplit fullText =
     map_option (\<lambda>i. (TrimSpace (take i fullText), TrimSpace (drop i fullText)))
       (find (capitalAt fullText) [1 ..< length fullText])"

definition parseContractIDAndDescription :: "string \<Rightarrow> string \<times> string" where
  "parseContractIDAndDescription cell =
     (let fullText = TrimSpace cell in
      case firstPattern patterns fullText of
        Some cid \<Rightarrow> (cid, TrimSpace (drop (length cid) fullText))
      | None \<Rightarrow>
          (case starterSplit descriptionStarters fullText of
             Some r \<Rightarrow> r
           | None \<Rightarrow>
               (case capitalSplit fullText of
                  Some r \<Rightarrow> r
                | None \<Rightarrow>
                    if 30 < length fullText then (take 30 fullText, drop 30 fullText)
                    else (fullText, []))))"

section \<open>Extraction from table data\<close>

text \<open>
  The header test of the three extraction functions: some cell of the row, trimmed and in
  lower case, contains one of the six keywords (the last two as the source file has them).
\<close>

definition headerKeywords :: "string list" where
  "headerKeywords =
    [ ''expediente'', ''tipo'', ''estado'', ''importe'',
      ''presentaci'' @ oSrc @ ''n'', oSrc @ ''rgano'' ]"

definition isHeader :: "string list \<Rightarrow> bool" where
  "isHeader row =
     list_ex (\<lambda>cell. list_ex (Contains (ToLower (TrimSpace cell))) headerKeywords) row"

text \<open>
  The record built from a row of at least six cells; \<open>t\<close> is the value of
  \<^verbatim>\<open>time.Now()\<close> when the row is processed. \<open>row ! k\<close> is read only for \<open>k < 6\<close>,
  behind the length test of the callers.
\<close>

definition rowContract :: "nat \<Rightarrow> string list \<Rightarrow> Contract" where
  "rowContract t row =
     (let (cid, description) = parseContractIDAndDescription (row ! 0) in
      \<lparr> ID = cid, Description = description,
        ContractType = TrimSpace (row ! 1), Status = TrimSpace (row ! 2),
        Amount = TrimSpace (row ! 3), SubmissionDate = TrimSpace (row ! 4),
        ContractingBody = TrimSpace (row ! 5),
        Link = [], PliegoLink = [], AnuncioLink = [], ScrapedAt = t \<rparr>)"

text \<open>The two status literals of the filter, the second as the source file has it.\<close>

definition statusPublicada :: string where
  "statusPublicada = ''Publicada''"

definition statusEvaluacionPrevia :: string where
  "statusEvaluacionPrevia = ''Evaluaci'' @ oSrc @ ''n Previa''"

definition keepStatus :: "Contract \<Rightarrow> bool" where
  "keepStatus contract =
     (EqualFold (Status contract) statusPublicada \<or>
      EqualFold (Status contract) statusEvaluacionPrevia)"

text \<open>
  The loop \<^verbatim>\<open>for i, row := range tableData\<close> of \<^verbatim>\<open>ExtractContractsFromTable\<close>, from row
  index \<open>i\<close> on; \<open>now i\<close> is the clock reading at row \<open>i\<close>. The function returns a nil
  error on every path, so the model returns the slice alone.
\<close>

fun extractFrom :: "(nat \<Rightarrow> nat) \<Rightarrow> nat \<Rightarrow> string list list \<Rightarrow> Contract list" where
  "extractFrom now i [] = []"
| "extractFrom now i (row # rows) =
     (if i = 0 \<and> isHeader row then extractFrom now (Suc i) rows
      else if length row < 6 then extractFrom now (Suc i) rows
      else if keepStatus (rowContract (now i) row)
           then rowContract (now i) row # extractFrom now (Suc i) rows
           else extractFrom now (Suc i) rows)"

definition ExtractContractsFromTable ::
  "(nat \<Rightarrow> nat) \<Rightarrow> string list list \<Rightarrow> Contract list" where
  "ExtractContractsFromTable now tableData = extractFrom now 0 tableData"

text \<open>The same loop in \<^verbatim>\<open>ExtractAllContractsFromTable\<close>, without the status filter.\<close>

fun extractAllFrom :: "(nat \<Rightarrow> nat) \<Rightarrow> nat \<Rightarrow> string list list \<Rightarrow> Contract list" where
  "extractAllFrom now i [] = []"
| "extractAllFrom now i (row # rows) =
     (if i = 0 \<and> isHeader row then extractAllFrom now (Suc i) rows
      else if length row < 6 then extractAllFrom now (Suc i) rows
      else rowContract (now i) row # extractAllFrom now (Suc i) rows)"

definition ExtractAllContractsFromTable ::
  "(nat \<Rightarrow> nat) \<Rightarrow> string list list \<Rightarrow> Contract list" where
  "ExtractAllContractsFromTable now tableData = extractAllFrom now 0 tableData"

text \<open>A record without its capture timestamp, for comparing the results of two calls.\<close>

definition untimed :: "Contract \<Rightarrow> Contract" where
  "untimed contract = contract\<lparr>ScrapedAt := 0\<rparr>"

text \<open>
  The status filter as the specification words it: the status equals \<^verbatim>\<open>Publicada\<close> or
  \<^verbatim>\<open>Evaluaci\<close>\<open>\<dots>\<close>\<^verbatim>\<open>n Previa\<close> with the accented letter in UTF-8, ignoring case.
\<close>

definition specStatus :: "Contract \<Rightarrow> bool" where
  "specStatus contract =
     (EqualFold (Status contract) ''Publicada'' \<or>
      EqualFold (Status contract) (''Evaluaci'' @ oAcute @ ''n Previa''))"

section \<open>Document links of a detail page\<close>







section \<open>Storage\<close>

text \<open>
  The two tables of \<^verbatim>\<open>initTables\<close>. A row of \<^verbatim>\<open>contracts\<close> holds the columns of a
  \<^verbatim>\<open>Contract\<close> and the two timestamps the database fills in; the table is keyed by the
  primary key \<^verbatim>\<open>id\<close>. A row of \<^verbatim>\<open>status_changes\<close> is the struct \<^verbatim>\<open>StatusChange\<close>;
  \<open>seq\<close> is the last value handed out for its \<^verbatim>\<open>AUTOINCREMENT\<close> key. Foreign keys
  are not enforced (the connection never switches them on).
\<close>

record ContractRow =
  contract :: Contract
  created_at :: nat
  updated_at :: nat

record StatusChange =
  ChangeID :: nat
  ContractID :: string
  OldStatus :: string
  NewStatus :: string
  ChangedAt :: nat

record DB =
  contracts :: "string \<rightharpoonup> ContractRow"
  status_changes :: "StatusChange list"
  seq :: nat

text \<open>
  Every call into \<^verbatim>\<open>database/sql\<close> may fail. The calls of one operation are numbered in
  the order in which they are made; \<open>fails env k\<close> tells whether call \<open>k\<close> returns an
  error, \<open>clock env k\<close> is \<^verbatim>\<open>CURRENT_TIMESTAMP\<close> at that call.
\<close>

record Env =
  fails :: "nat \<Rightarrow> bool"
  clock :: "nat \<Rightarrow> nat"

text \<open>The errors the storage functions return, one per \<^verbatim>\<open>fmt.Errorf\<close> of the source.\<close>

datatype error =
    BeginFailed
  | PrepareInsertFailed
  | PrepareCheckStatusFailed
  | PrepareStatusChangeFailed
  | CheckStatusFailed string
  | InsertFailed string
  | RecordChangeFailed string
  | CommitFailed
  | PrepareCheckFailed
  | PrepareUpdateFailed
  | CheckContractFailed string
  | UpdateStatusFailed string
  | GetContractFailed
  | ContractExistsFailed
  | CheckExistsFailed

text \<open>
  \<^verbatim>\<open>INSERT OR REPLACE INTO contracts\<close>: the row of that key is replaced by a new one;
  \<^verbatim>\<open>created_at\<close> takes its default and \<^verbatim>\<open>updated_at\<close> the given timestamp.
\<close>

definition insertOrReplace :: "nat \<Rightarrow> Contract \<Rightarrow> DB \<Rightarrow> DB" where
  "insertOrReplace t c d =
     d\<lparr>contracts := (contracts d)(ID c \<mapsto> \<lparr>contract = c, created_at = t, updated_at = t\<rparr>)\<rparr>"

text \<open>\<^verbatim>\<open>INSERT INTO status_changes (contract_id, old_status, new_status)\<close>.\<close>

definition insertStatusChange :: "nat \<Rightarrow> string \<Rightarrow> string \<Rightarrow> string \<Rightarrow> DB \<Rightarrow> DB" where
  "insertStatusChange t cid old new d =
     d\<lparr>status_changes := status_changes d @
          [\<lparr>ChangeID = Suc (seq d), ContractID = cid, OldStatus = old, NewStatus = new,
            ChangedAt = t\<rparr>],
       seq := Suc (seq d)\<rparr>"

text \<open>\<^verbatim>\<open>UPDATE contracts SET status = ?, updated_at = CURRENT_TIMESTAMP WHERE id = ?\<close>.\<close>

definition updateStatus :: "nat \<Rightarrow> string \<Rightarrow> string \<Rightarrow> DB \<Rightarrow> DB" where
  "updateStatus t new cid d =
     (case contracts d cid of
        None \<Rightarrow> d
      | Some r \<Rightarrow>
          d\<lparr>contracts := (contracts d)(cid \<mapsto>
               r\<lparr>contract := (contract r)\<lparr>Status := new\<rparr>, updated_at := t\<rparr>)\<rparr>)"

subsection \<open>SaveContracts\<close>

text \<open>
  The body of the loop of \<^verbatim>\<open>SaveContracts\<close> for one contract, inside the transaction:
  \<open>d\<close> is the state the transaction sees and \<open>k\<close> the number of the next database call.
  \<^verbatim>\<open>Scan\<close> leaves \<^verbatim>\<open>currentStatus\<close> empty when there is no row. The variable \<^verbatim>\<open>err\<close>
  is assigned again by the insert, so where the source then tests
  \<^verbatim>\<open>err != sql.ErrNoRows\<close> it is nil and the test holds; what decides is
  \<^verbatim>\<open>currentStatus != "" && currentStatus != contract.Status\<close>.
\<close>

definition saveOne :: "Env \<Rightarrow> DB \<times> nat \<Rightarrow> Contract \<Rightarrow> error + DB \<times> nat" where
  "saveOne env st c =
     (let d = fst st; k = snd st in
      if fails env k then Inl (CheckStatusFailed (ID c))
      else
        (let currentStatus =
               (case contracts d (ID c) of None \<Rightarrow> [] | Some r \<Rightarrow> Status (contract r)) in
         if fails env (k + 1) then Inl (InsertFailed (ID c))
         else
           (let d1 = insertOrReplace (clock env (k + 1)) c d in
            if currentStatus \<noteq> [] \<and> currentStatus \<noteq> Status c then
              (if fails env (k + 2) then Inl (RecordChangeFailed (ID c))
               else Inr (insertStatusChange (clock env (k + 2)) (ID c) currentStatus (Status c) d1,
                         k + 3))
            else Inr (d1, k + 2))))"

fun saveLoop :: "Env \<Rightarrow> DB \<times> nat \<Rightarrow> Contract list \<Rightarrow> error + DB \<times> nat" where
  "saveLoop env st [] = Inr st"
| "saveLoop env st (c # cs) =
     (case saveOne env st c of
        Inl e \<Rightarrow> Inl e
      | Inr st' \<Rightarrow> saveLoop env st' cs)"

text \<open>
  \<^verbatim>\<open>SaveContracts\<close> returns its error and leaves the database in a state; the model returns
  both. Calls 0 to 3 are \<^verbatim>\<open>Begin\<close> and the three \<^verbatim>\<open>Prepare\<close>s. The transaction works on
  its own copy of the state: \<^verbatim>\<open>Commit\<close> makes the copy the state of the database, the
  deferred \<^verbatim>\<open>Rollback\<close> throws it away on every return before that, and a \<^verbatim>\<open>Commit\<close> that
  fails leaves the database as it was (the driver rolls back).
\<close>

definition SaveContracts :: "Env \<Rightarrow> DB \<Rightarrow> Contract list \<Rightarrow> error option \<times> DB" where
  "SaveContracts env d cs =
     (if cs = [] then (None, d)
      else if fails env 0 then (Some BeginFailed, d)
      else if fails env 1 then (Some PrepareInsertFailed, d)
      else if fails env 2 then (Some PrepareCheckStatusFailed, d)
      else if fails env 3 then (Some PrepareStatusChangeFailed, d)
      else
        (case saveLoop env (d, 4) cs of
           Inl e \<Rightarrow> (Some e, d)
         | Inr st \<Rightarrow>
             if fails env (snd st) then (Some CommitFailed, d)
             else (None, fst st)))"

subsection \<open>CheckAndUpdateStatusChanges\<close>

definition checkOne :: "Env \<Rightarrow> DB \<times> nat \<Rightarrow> Contract \<Rightarrow> error + DB \<times> nat" where
  "checkOne env st c =
     (let d = fst st; k = snd st in
      if fails env k then Inl (CheckContractFailed (ID c))
      else
        (case contracts d (ID c) of
           None \<Rightarrow> Inr (d, k + 1)
         | Some r \<Rightarrow>
             (let currentStatus = Status (contract r) in
              if currentStatus \<noteq> Status c then
                (if fails env (k + 1) then Inl (UpdateStatusFailed (ID c))
                 else
                   (let d1 = updateStatus (clock env (k + 1)) (Status c) (ID c) d in
                    if fails env (k + 2) then Inl (RecordChangeFailed (ID c))
                    else Inr (insertStatusChange (clock env (k + 2)) (ID c) currentStatus
                                (Status c) d1,
                              k + 3)))
              else Inr (d, k + 1))))"

fun checkLoop :: "Env \<Rightarrow> DB \<times> nat \<Rightarrow> Contract list \<Rightarrow> error + DB \<times> nat" where
  "checkLoop env st [] = Inr st"
| "checkLoop env st (c # cs) =
     (case checkOne env st c of
        Inl e \<Rightarrow> Inl e
      | Inr st' \<Rightarrow> checkLoop env st' cs)"

definition CheckAndUpdateStatusChanges ::
  "Env \<Rightarrow> DB \<Rightarrow> Contract list \<Rightarrow> error option \<times> DB" where
  "CheckAndUpdateStatusChanges env d allContracts =
     (if allContracts = [] then (None, d)
      else if fails env 0 then (Some BeginFailed, d)
      else if fails env 1 then (Some PrepareCheckFailed, d)
      else if fails env 2 then (Some PrepareUpdateFailed, d)
      else if fails env 3 then (Some PrepareStatusChangeFailed, d)
      else
        (case checkLoop env (d, 4) allContracts of
           Inl e \<Rightarrow> (Some e, d)
         | Inr st \<Rightarrow>
             if fails env (snd st) then (Some CommitFailed, d)
             else (None, fst st)))"

subsection \<open>Queries\<close>

text \<open>
  \<^verbatim>\<open>GetContractByID\<close> returns a pointer and an error: \<open>Inr None\<close> is \<^verbatim>\<open>(nil, nil)\<close>,
  \<open>Inr (Some c)\<close> a contract with a nil error, \<open>Inl e\<close> a nil pointer with an error.
\<close>

definition GetContractByID :: "Env \<Rightarrow> DB \<Rightarrow> string \<Rightarrow> error + Contract option" where
  "GetContractByID env d cid =
     (if fails env 0 then Inl GetContractFailed
      else
        (case contracts d cid of
           None \<Rightarrow> Inr None
         | Some r \<Rightarrow> Inr (Some (contract r))))"

text \<open>\<^verbatim>\<open>contractExists\<close>, as database call \<open>k\<close>: \<^verbatim>\<open>COUNT(*)\<close> over a primary key is 0 or 1.\<close>

definition contractExists :: "Env \<Rightarrow> nat \<Rightarrow> DB \<Rightarrow> string \<Rightarrow> error + bool" where
  "contractExists env k d cid =
     (if fails env k then Inl ContractExistsFailed
      else
        (let count = (case contracts d cid of None \<Rightarrow> 0 | Some r \<Rightarrow> (1::nat)) in
         Inr (0 < count)))"

text \<open>
  The loop of \<^verbatim>\<open>GetNewContracts\<close>, with the slice built so far and the number of the next
  database call.
\<close>

fun getNewLoop ::
  "Env \<Rightarrow> DB \<Rightarrow> nat \<Rightarrow> Contract list \<Rightarrow> Contract list \<Rightarrow> error + Contract list" where
  "getNewLoop env d k newContracts [] = Inr newContracts"
| "getNewLoop env d k newContracts (c # cs) =
     (case contractExists env k d (ID c) of
        Inl e \<Rightarrow> Inl CheckExistsFailed
      | Inr exists \<Rightarrow>
          if \<not> exists then getNewLoop env d (Suc k) (newContracts @ [c]) cs
          else getNewLoop env d (Suc k) newContracts cs)"

definition GetNewContracts :: "Env \<Rightarrow> DB \<Rightarrow> Contract list \<Rightarrow> error + Contract list" where
  "GetNewContracts env d cs = getNewLoop env d 0 [] cs"

section \<open>Enhancing contracts with document links\<close>

text \<open>
  The two arguments of type \<^verbatim>\<open>interface{}\<close>. The storage is nil, or a value without the
  method \<^verbatim>\<open>GetContractByID\<close>, or a store; the scraper has the method
  \<^verbatim>\<open>ExtractDocumentLinksFromContract\<close> or not. Both methods are called once per contract at
  most, and what they answer at loop index \<open>i\<close> is given by a function of \<open>i\<close> and the
  argument.
\<close>

datatype storageArg =
    NilStorage
  | OtherStorage
  | ContractStore "nat \<Rightarrow> string \<Rightarrow> error + Contract option"

datatype scrapeError = ExtractLinksFailed

type_synonym scraperArg = "(nat \<Rightarrow> string \<Rightarrow> scrapeError + string \<times> string) option"

text \<open>
  The part of the loop body that consults the storage: the element of
  \<^verbatim>\<open>enhancedContracts\<close> afterwards, and whether the body ends there (\<^verbatim>\<open>continue\<close>).
\<close>

definition fromStorage :: "storageArg \<Rightarrow> nat \<Rightarrow> Contract \<Rightarrow> Contract \<times> bool" where
  "fromStorage storage i c =
     (case storage of
        ContractStore get \<Rightarrow>
          (case get i (ID c) of
             Inl e \<Rightarrow> (c, False)
           | Inr None \<Rightarrow> (c, False)
           | Inr (Some existingContract) \<Rightarrow>
               if PliegoLink existingContract \<noteq> [] \<and> AnuncioLink existingContract \<noteq> [] then
                 (c\<lparr>PliegoLink := PliegoLink existingContract,
                    AnuncioLink := AnuncioLink existingContract\<rparr>, True)
               else if PliegoLink existingContract \<noteq> [] \<or> AnuncioLink existingContract \<noteq> [] then
                 (c\<lparr>PliegoLink := PliegoLink existingContract,
                    AnuncioLink := AnuncioLink existingContract\<rparr>, False)
               else (c, False))
      | _ \<Rightarrow> (c, False))"

text \<open>The part that asks the scraper, on the element as the storage part left it.\<close>

definition fromScraper :: "scraperArg \<Rightarrow> nat \<Rightarrow> string \<Rightarrow> Contract \<Rightarrow> Contract" where
  "fromScraper seleniumScraper i contractLink enhanced =
     (case seleniumScraper of
        None \<Rightarrow> enhanced
      | Some extract \<Rightarrow>
          (case extract i contractLink of
             Inl e \<Rightarrow> enhanced
           | Inr (pliegoLink, anuncioLink) \<Rightarrow>
               (let e1 = (if pliegoLink \<noteq> [] then enhanced\<lparr>PliegoLink := pliegoLink\<rparr>
                          else enhanced)
                in if anuncioLink \<noteq> [] then e1\<lparr>AnuncioLink := anuncioLink\<rparr> else e1)))"

definition enhanceOne :: "scraperArg \<Rightarrow> storageArg \<Rightarrow> nat \<Rightarrow> Contract \<Rightarrow> Contract" where
  "enhanceOne seleniumScraper storage i c =
     (if Link c = [] then c
      else
        (let (enhanced, done) = fromStorage storage i c in
         if done then enhanced
         else fromScraper seleniumScraper i (Link c) enhanced))"

fun enhanceFrom :: "scraperArg \<Rightarrow> storageArg \<Rightarrow> nat \<Rightarrow> Contract list \<Rightarrow> Contract list" where
  "enhanceFrom seleniumScraper storage i [] = []"
| "enhanceFrom seleniumScraper storage i (c # cs) =
     enhanceOne seleniumScraper storage i c # enhanceFrom seleniumScraper storage (Suc i) cs"

text \<open>The function returns a nil error on every path; the model returns the slice.\<close>

definition EnhanceContractsWithDocumentLinks ::
  "Contract list \<Rightarrow> scraperArg \<Rightarrow> storageArg \<Rightarrow> Contract list" where
  "EnhanceContractsWithDocumentLinks cs seleniumScraper storage =
     enhanceFrom seleniumScraper storage 0 cs"

section \<open>Status changes of a batch\<close>

text \<open>The contract, old status and new status of a row of \<^verbatim>\<open>status_changes\<close>.\<close>

definition changeTriple :: "StatusChange \<Rightarrow> string \<times> string \<times> string" where
  "changeTriple s = (ContractID s, OldStatus s, NewStatus s)"

text \<open>
  What one contract of a batch adds to \<^verbatim>\<open>status_changes\<close>, seen from the state \<open>d\<close> of the
  database: one row when the identifier is stored with a status that is not empty and
  differs from the incoming one, nothing otherwise.
\<close>

definition statusChangeFor :: "DB \<Rightarrow> Contract \<Rightarrow> (string \<times> string \<times> string) list" where
  "statusChangeFor d c =
     (case contracts d (ID c) of
        None \<Rightarrow> []
      | Some r \<Rightarrow>
          if Status (contract r) \<noteq> [] \<and> Status (contract r) \<noteq> Status c
          then [(ID c, Status (contract r), Status c)] else [])"

text \<open>The rows of \<^verbatim>\<open>status_changes\<close> that \<open>d'\<close> has beyond those of \<open>d\<close>.\<close>

definition newRows :: "DB \<Rightarrow> DB \<Rightarrow> StatusChange list" where
  "newRows d d' = drop (length (status_changes d)) (status_changes d')"

section \<open>New contracts\<close>

text \<open>The identifier of \<open>c\<close> is absent from the table \<^verbatim>\<open>contracts\<close> of \<open>d\<close>.\<close>

definition isNew :: "DB \<Rightarrow> Contract \<Rightarrow> bool" where
  "isNew d c = (contracts d (ID c) = None)"

section \<open>Concrete inputs\<close>

text \<open>A clock that always reads 0, a database without failures.\<close>

definition clockZero :: "nat \<Rightarrow> nat" where
  "clockZero i = 0"

text \<open>
  A results table of one row whose status cell is \<^verbatim>\<open>Evaluaci\<close>\<open>\<dots>\<close>\<^verbatim>\<open>n Previa\<close> as the portal
  sends it, the accented letter in UTF-8.
\<close>

definition tableEvaluacion :: "string list list" where
  "tableEvaluacion =
     [[''1234/2024Suministro de pantallas LED'', ''Suministros'',
       ''Evaluaci'' @ oAcute @ ''n Previa'', ''1.000,00'', ''01/02/2026'', ''Ayuntamiento'']]"

text \<open>A results table whose second row has five cells.\<close>

definition tableShort :: "string list list" where
  "tableShort =
     [[''1234/2024Suministro de pantallas LED'', ''Suministros'', ''Publicada'',
       ''1.000,00'', ''01/02/2026'', ''Ayuntamiento''],
      [''5678/2024Suministro de monitores'', ''Suministros'', ''Publicada'',
       ''2.000,00'', ''01/03/2026''],
      [''S-02968-2025Obras de reforma'', ''Obras'', ''Adjudicada'',
       ''3.000,00'', ''01/04/2026'', ''Diputacion'']]"


text \<open>An environment in which no database call fails, and one in which call \<open>n\<close> fails.\<close>

definition neverFails :: Env where
  "neverFails = \<lparr>fails = (\<lambda>k. False), clock = clockZero\<rparr>"

definition failAt :: "nat \<Rightarrow> Env" where
  "failAt n = \<lparr>fails = (\<lambda>k. k = n), clock = clockZero\<rparr>"

text \<open>A contract with the given identifier and status, and a database holding contracts.\<close>

definition contractOf :: "string \<Rightarrow> string \<Rightarrow> Contract" where
  "contractOf cid st =
     \<lparr>ID = cid, Description = ''Suministro de pantallas LED'', ContractType = ''Suministros'',
      Status = st, Amount = ''1.000,00'', SubmissionDate = ''01/02/2026'',
      ContractingBody = ''Ayuntamiento'', Link = [], PliegoLink = [], AnuncioLink = [],
      ScrapedAt = 0\<rparr>"

definition dbWith :: "Contract list \<Rightarrow> DB" where
  "dbWith cs =
     \<lparr>contracts = map_of (map (\<lambda>c. (ID c, \<lparr>contract = c, created_at = 0, updated_at = 0\<rparr>)) cs),
      status_changes = [], seq = 0\<rparr>"

text \<open>The storage argument of the enhancer backed by a database.\<close>

definition storeOf :: "DB \<Rightarrow> storageArg" where
  "storeOf d = ContractStore (\<lambda>i cid. GetContractByID neverFails d cid)"

text \<open>The same storage when its query fails.\<close>

definition failingStoreOf :: "DB \<Rightarrow> storageArg" where
  "failingStoreOf d = ContractStore (\<lambda>i cid. GetContractByID (failAt 0) d cid)"

text \<open>A stored Pliego link, a detail-page link, a scraper that finds the Anuncio link only.\<close>

definition withPliego :: "Contract \<Rightarrow> Contract" where
  "withPliego c = c\<lparr>PliegoLink := ''/GetDocumentByIdServlet?id=1''\<rparr>"

definition withLink :: "Contract \<Rightarrow> Contract" where
  "withLink c = c\<lparr>Link := ''https://contrataciondelestado.es/detalle_licitacion?id=A1''\<rparr>"

definition anuncioScraper :: scraperArg where
  "anuncioScraper = Some (\<lambda>i contractLink. Inr ([], ''/GetDocumentByIdServlet?id=9''))"

section \<open>Properties of the identifier split\<close>

text \<open>
  C1. The cell \<^verbatim>\<open>10892/2024Suministro de material para pantallas\<close> is split into the
  identifier \<^verbatim>\<open>10892/2024\<close> and the description \<^verbatim>\<open>Suministro de material para pantallas\<close>,
  by the first pattern of the list. The cell \<^verbatim>\<open>S-02968-2025Contrataci\<close>\<open>\<dots>\<close>\<^verbatim>\<open>n de servicio
  de instalaci\<close>\<open>\<dots>\<close>\<^verbatim>\<open>n\<close> (accented letters in UTF-8) is split into \<^verbatim>\<open>S-02968-2025\<close> and
  the rest: the first pattern does not match it, the second one does.
\<close>

theorem parse_scenarios:
  "parseContractIDAndDescription ''10892/2024Suministro de material para pantallas'' =
     (''10892/2024'', ''Suministro de material para pantallas'') \<and>
   parseContractIDAndDescription
     (''S-02968-2025Contrataci'' @ oAcute @ ''n de servicio de instalaci'' @ oAcute @ ''n'') =
     (''S-02968-2025'',
      ''Contrataci'' @ oAcute @ ''n de servicio de instalaci'' @ oAcute @ ''n'') \<and>
   FindStringSubmatch (patterns ! 0) ''10892/2024Suministro de material para pantallas'' =
     Some ''10892/2024'' \<and>
   FindStringSubmatch (patterns ! 0)
     (''S-02968-2025Contrataci'' @ oAcute @ ''n de servicio de instalaci'' @ oAcute @ ''n'') =
     None \<and>
   FindStringSubmatch (patterns ! 1)
     (''S-02968-2025Contrataci'' @ oAcute @ ''n de servicio de instalaci'' @ oAcute @ ''n'') =
     Some ''S-02968-2025''"
  by (intro conjI; code_simp)

section \<open>Properties of the extraction\<close>

lemma untimed_rowContract: "untimed (rowContract t row) = untimed (rowContract t' row)"
  by (simp add: untimed_def rowContract_def split: prod.splits)

lemma keepStatus_untimed: "keepStatus (untimed c) = keepStatus c"
  by (simp add: keepStatus_def untimed_def)

lemma keepStatus_rowContract: "keepStatus (rowContract t row) = keepStatus (rowContract t' row)"
  by (metis keepStatus_untimed untimed_rowContract)

text \<open>
  Timestamps apart, the filtered extraction is the unfiltered one restricted to the
  records that pass the status test of the source, \<open>keepStatus\<close>.
\<close>

lemma extractFrom_filter:
  "map untimed (extractFrom now i t) =
     filter keepStatus (map untimed (extractAllFrom now' i t))"
proof (induction t arbitrary: i)
  case Nil
  show ?case by simp
next
  case (Cons row rows)
  show ?case
    using Cons.IH [of "Suc i"] keepStatus_rowContract [of "now i" row "now' i"]
      untimed_rowContract [of "now i" row "now' i"]
    by (auto simp: keepStatus_untimed)
qed

lemma ExtractContractsFromTable_filter:
  "map untimed (ExtractContractsFromTable now t) =
     filter keepStatus (map untimed (ExtractAllContractsFromTable now' t))"
  by (simp add: ExtractContractsFromTable_def ExtractAllContractsFromTable_def
      extractFrom_filter)

text \<open>
  C3. The filtered extraction should be the unfiltered one restricted to the statuses
  \<^verbatim>\<open>Publicada\<close> and \<^verbatim>\<open>Evaluaci\<close>\<open>\<dots>\<close>\<^verbatim>\<open>n Previa\<close>. On a table whose only row has the status
  \<^verbatim>\<open>Evaluaci\<close>\<open>\<dots>\<close>\<^verbatim>\<open>n Previa\<close> in UTF-8, the filtered extraction is empty, while the unfiltered
  extraction restricted as the specification says holds that row: the literal the source
  compares with is not that text.
\<close>

theorem evaluacion_previa_dropped:
  "ExtractContractsFromTable clockZero tableEvaluacion = [] \<and>
   map Status (filter specStatus (ExtractAllContractsFromTable clockZero tableEvaluacion)) =
     [''Evaluaci'' @ oAcute @ ''n Previa'']"
  by (intro conjI; code_simp)

lemma extractFrom_append:
  "extractFrom now j (xs @ ys) = extractFrom now j xs @ extractFrom now (j + length xs) ys"
  by (induction xs arbitrary: j) simp_all

lemma extractAllFrom_append:
  "extractAllFrom now j (xs @ ys) =
     extractAllFrom now j xs @ extractAllFrom now (j + length xs) ys"
  by (induction xs arbitrary: j) simp_all

text \<open>
  C8. A row with fewer than 6 cells contributes no record: when row \<open>i\<close> of the table is
  such a row, the filtered and the unfiltered result are each made of the records of the
  rows before \<open>i\<close> followed by the records of the rows after \<open>i\<close>, every row processed at
  its own index.
\<close>

theorem short_row_contributes_nothing:
  assumes "i < length t" and "length (t ! i) < 6"
  shows "ExtractContractsFromTable now t =
           extractFrom now 0 (take i t) @ extractFrom now (Suc i) (drop (Suc i) t) \<and>
         ExtractAllContractsFromTable now t =
           extractAllFrom now 0 (take i t) @ extractAllFrom now (Suc i) (drop (Suc i) t)"
proof -
  have t: "t = take i t @ (t ! i) # drop (Suc i) t"
    using assms(1) by (simp add: id_take_nth_drop)
  have len: "length (take i t) = i"
    using assms(1) by simp
  have a: "extractFrom now 0 (take i t @ (t ! i) # drop (Suc i) t) =
        extractFrom now 0 (take i t) @ extractFrom now (Suc i) (drop (Suc i) t)"
    unfolding extractFrom_append using assms(2) len by simp
  have b: "extractAllFrom now 0 (take i t @ (t ! i) # drop (Suc i) t) =
        extractAllFrom now 0 (take i t) @ extractAllFrom now (Suc i) (drop (Suc i) t)"
    unfolding extractAllFrom_append using assms(2) len by simp
  show ?thesis
    unfolding ExtractContractsFromTable_def ExtractAllContractsFromTable_def
    using a b t by simp
qed

theorem short_row_contributes_nothing_witness:
  "1 < length tableShort \<and> length (tableShort ! 1) < 6 \<and>
   ExtractContractsFromTable clockZero tableShort =
     extractFrom clockZero 0 (take 1 tableShort) @
     extractFrom clockZero (Suc 1) (drop (Suc 1) tableShort) \<and>
   ExtractAllContractsFromTable clockZero tableShort =
     extractAllFrom clockZero 0 (take 1 tableShort) @
     extractAllFrom clockZero (Suc 1) (drop (Suc 1) tableShort)"
proof -
  have h1: "1 < length tableShort"
    by (simp add: tableShort_def)
  have h2: "length (tableShort ! 1) < 6"
    by (simp add: tableShort_def)
  show ?thesis
    using short_row_contributes_nothing [OF h1 h2, of clockZero] h1 h2 by simp
qed

section \<open>Properties of the document links\<close>






section \<open>Properties of SaveContracts\<close>

lemma saveOne_result:
  assumes "saveOne env (d, k) c = Inr (d', k')"
  shows "\<exists>rows t. status_changes d' = status_changes d @ rows \<and>
           map changeTriple rows = statusChangeFor d c \<and>
           contracts d' = (contracts d)(ID c \<mapsto> \<lparr>contract = c, created_at = t, updated_at = t\<rparr>)"
  using assms
  by (auto simp: saveOne_def Let_def insertOrReplace_def insertStatusChange_def
      statusChangeFor_def changeTriple_def split: if_splits option.splits)

lemma statusChangeFor_other:
  "ID c \<noteq> ID c' \<Longrightarrow> contracts d' = (contracts d)(ID c \<mapsto> r) \<Longrightarrow>
   statusChangeFor d' c' = statusChangeFor d c'"
  by (simp add: statusChangeFor_def)

lemma saveLoop_result:
  "distinct (map ID cs) \<Longrightarrow> saveLoop env (d, k) cs = Inr (d', k') \<Longrightarrow>
   \<exists>rows. status_changes d' = status_changes d @ rows \<and>
     map changeTriple rows = concat (map (statusChangeFor d) cs)"
proof (induction cs arbitrary: d k)
  case Nil
  then show ?case by simp
next
  case (Cons c cs)
  from Cons.prems(2) obtain d1 k1 where
    one: "saveOne env (d, k) c = Inr (d1, k1)" and rest: "saveLoop env (d1, k1) cs = Inr (d', k')"
    by (auto split: sum.splits)
  from saveOne_result [OF one] obtain rows1 t where
    r1: "status_changes d1 = status_changes d @ rows1"
    and m1: "map changeTriple rows1 = statusChangeFor d c"
    and c1: "contracts d1 = (contracts d)(ID c \<mapsto> \<lparr>contract = c, created_at = t, updated_at = t\<rparr>)"
    by blast
  from Cons.prems(1) have dist: "distinct (map ID cs)" and notin: "\<forall>c' \<in> set cs. ID c \<noteq> ID c'"
    by auto
  from Cons.IH [OF dist rest] obtain rows2 where
    r2: "status_changes d' = status_changes d1 @ rows2"
    and m2: "map changeTriple rows2 = concat (map (statusChangeFor d1) cs)"
    by blast
  have same: "map (statusChangeFor d1) cs = map (statusChangeFor d) cs"
    using notin statusChangeFor_other [OF _ c1] by simp
  show ?case
    using r1 r2 m1 m2 same by simp
qed

lemma statusChangeFor_fst: "(x, old, new) \<in> set (statusChangeFor d c) \<Longrightarrow> x = ID c"
  by (auto simp: statusChangeFor_def split: option.splits if_splits)

lemma filter_own: "filter (\<lambda>t. fst t = ID c) (statusChangeFor d c) = statusChangeFor d c"
  by (auto simp: statusChangeFor_def split: option.splits)

lemma filter_other:
  "ID c' \<noteq> x \<Longrightarrow> filter (\<lambda>t. fst t = x) (statusChangeFor d c') = []"
  by (auto simp: statusChangeFor_def split: option.splits)

lemma filter_others:
  "\<forall>c' \<in> set cs. ID c' \<noteq> x \<Longrightarrow>
   filter (\<lambda>t. fst t = x) (concat (map (statusChangeFor d) cs)) = []"
  by (induction cs) (simp_all add: filter_other)

lemma filter_concat_distinct:
  "distinct (map ID cs) \<Longrightarrow> c \<in> set cs \<Longrightarrow>
   filter (\<lambda>t. fst t = ID c) (concat (map (statusChangeFor d) cs)) = statusChangeFor d c"
proof (induction cs)
  case Nil
  then show ?case by simp
next
  case (Cons a cs)
  show ?case
  proof (cases "c = a")
    case True
    have "ID a \<notin> set (map ID cs)" using Cons.prems(1) by simp
    then have "\<forall>c' \<in> set cs. ID c' \<noteq> ID a" by (metis image_eqI set_map)
    then show ?thesis using True by (simp add: filter_own filter_others)
  next
    case False
    with Cons.prems have mem: "c \<in> set cs" by simp
    have "ID c \<in> set (map ID cs)" using mem by simp
    then have ne: "ID a \<noteq> ID c" using Cons.prems(1) by auto
    show ?thesis
      using Cons.IH [OF _ mem] Cons.prems(1) filter_other [OF ne] by simp
  qed
qed

lemma SaveContracts_rows:
  assumes "SaveContracts env d cs = (None, d')" and "distinct (map ID cs)"
  shows "\<exists>rows. status_changes d' = status_changes d @ rows \<and>
     map changeTriple rows = concat (map (statusChangeFor d) cs)"
proof (cases "cs = []")
  case True
  with assms(1) show ?thesis by (simp add: SaveContracts_def)
next
  case False
  with assms(1) obtain st where loop: "saveLoop env (d, 4) cs = Inr st" and d': "d' = fst st"
    by (auto simp: SaveContracts_def split: if_splits sum.splits)
  from loop have "saveLoop env (d, 4) cs = Inr (d', snd st)" using d' by simp
  from saveLoop_result [OF assms(2) this] show ?thesis .
qed

text \<open>
  What \<^verbatim>\<open>SaveContracts\<close> adds to \<^verbatim>\<open>status_changes\<close>. For a contract \<open>c\<close> processed in the
  state \<open>d0\<close> the transaction has reached, the rows the table had are kept; no row is
  added when the identifier of \<open>c\<close> is not stored, when it is stored with the empty status
  or when it is stored with the status of \<open>c\<close>; exactly one row is added, with the stored
  status as old and the status of \<open>c\<close> as new value, when it is stored with a status that
  is not empty and differs from the status of \<open>c\<close>. For a batch of contracts with distinct
  identifiers that \<^verbatim>\<open>SaveContracts\<close> commits, the same holds of every contract of the batch
  with respect to the state \<open>d\<close> before the call and the new rows about that contract.
\<close>

lemma SaveContracts_status_changes:
  "(saveOne env (d0, k) c = Inr (d1, k1) \<longrightarrow>
      take (length (status_changes d0)) (status_changes d1) = status_changes d0 \<and>
      (contracts d0 (ID c) = None \<longrightarrow> newRows d0 d1 = []) \<and>
      (\<forall>r. contracts d0 (ID c) = Some r \<and>
            (Status (contract r) = [] \<or> Status (contract r) = Status c) \<longrightarrow>
         newRows d0 d1 = []) \<and>
      (\<forall>r. contracts d0 (ID c) = Some r \<and> Status (contract r) \<noteq> [] \<and>
            Status (contract r) \<noteq> Status c \<longrightarrow>
         map changeTriple (newRows d0 d1) = [(ID c, Status (contract r), Status c)])) \<and>
   (SaveContracts env d cs = (None, d') \<and> distinct (map ID cs) \<and> c \<in> set cs \<longrightarrow>
      take (length (status_changes d)) (status_changes d') = status_changes d \<and>
      (contracts d (ID c) = None \<longrightarrow>
         filter (\<lambda>s. ContractID s = ID c) (newRows d d') = []) \<and>
      (\<forall>r. contracts d (ID c) = Some r \<and>
            (Status (contract r) = [] \<or> Status (contract r) = Status c) \<longrightarrow>
         filter (\<lambda>s. ContractID s = ID c) (newRows d d') = []) \<and>
      (\<forall>r. contracts d (ID c) = Some r \<and> Status (contract r) \<noteq> [] \<and>
            Status (contract r) \<noteq> Status c \<longrightarrow>
         map changeTriple (filter (\<lambda>s. ContractID s = ID c) (newRows d d')) =
           [(ID c, Status (contract r), Status c)]))"
proof (rule conjI; rule impI)
  assume one: "saveOne env (d0, k) c = Inr (d1, k1)"
  from saveOne_result [OF one] obtain rows where
    r: "status_changes d1 = status_changes d0 @ rows"
    and m: "map changeTriple rows = statusChangeFor d0 c"
    by blast
  have nr: "newRows d0 d1 = rows" using r by (simp add: newRows_def)
  show "take (length (status_changes d0)) (status_changes d1) = status_changes d0 \<and>
      (contracts d0 (ID c) = None \<longrightarrow> newRows d0 d1 = []) \<and>
      (\<forall>r. contracts d0 (ID c) = Some r \<and>
            (Status (contract r) = [] \<or> Status (contract r) = Status c) \<longrightarrow>
         newRows d0 d1 = []) \<and>
      (\<forall>r. contracts d0 (ID c) = Some r \<and> Status (contract r) \<noteq> [] \<and>
            Status (contract r) \<noteq> Status c \<longrightarrow>
         map changeTriple (newRows d0 d1) = [(ID c, Status (contract r), Status c)])"
    using r m nr by (auto simp: statusChangeFor_def)
next
  assume batch: "SaveContracts env d cs = (None, d') \<and> distinct (map ID cs) \<and> c \<in> set cs"
  then have ok: "SaveContracts env d cs = (None, d')" and dist: "distinct (map ID cs)"
    and mem: "c \<in> set cs"
    by simp_all
  from SaveContracts_rows [OF ok dist] obtain rows where
    r: "status_changes d' = status_changes d @ rows"
    and m: "map changeTriple rows = concat (map (statusChangeFor d) cs)"
    by blast
  have nr: "newRows d d' = rows" using r by (simp add: newRows_def)
  have "map changeTriple (filter (\<lambda>s. ContractID s = ID c) rows) =
        filter (\<lambda>t. fst t = ID c) (map changeTriple rows)"
    by (simp add: filter_map comp_def changeTriple_def)
  also have "\<dots> = statusChangeFor d c"
    using m filter_concat_distinct [OF dist mem] by simp
  finally have f: "map changeTriple (filter (\<lambda>s. ContractID s = ID c) (newRows d d')) =
        statusChangeFor d c" using nr by simp
  show "take (length (status_changes d)) (status_changes d') = status_changes d \<and>
      (contracts d (ID c) = None \<longrightarrow>
         filter (\<lambda>s. ContractID s = ID c) (newRows d d') = []) \<and>
      (\<forall>r. contracts d (ID c) = Some r \<and>
            (Status (contract r) = [] \<or> Status (contract r) = Status c) \<longrightarrow>
         filter (\<lambda>s. ContractID s = ID c) (newRows d d') = []) \<and>
      (\<forall>r. contracts d (ID c) = Some r \<and> Status (contract r) \<noteq> [] \<and>
            Status (contract r) \<noteq> Status c \<longrightarrow>
         map changeTriple (filter (\<lambda>s. ContractID s = ID c) (newRows d d')) =
           [(ID c, Status (contract r), Status c)])"
    using r f by (auto simp: statusChangeFor_def)
qed

text \<open>
  C2. A contract whose identifier is stored with a status different from the incoming one
  must produce exactly one row of \<^verbatim>\<open>status_changes\<close>, old value the stored status, new
  value the incoming one. The contract \<^verbatim>\<open>A1\<close> is stored with the empty status and saved
  with the status \<^verbatim>\<open>Publicada\<close>: \<^verbatim>\<open>SaveContracts\<close> commits and records no row, where
  \<^verbatim>\<open>CheckAndUpdateStatusChanges\<close> on the same database and batch records the change from
  the empty status to \<^verbatim>\<open>Publicada\<close>.
\<close>

theorem empty_stored_status_no_change:
  "map_option (\<lambda>r. Status (contract r)) (contracts (dbWith [contractOf ''A1'' []]) ''A1'') =
     Some [] \<and>
   Status (contractOf ''A1'' ''Publicada'') = ''Publicada'' \<and>
   fst (SaveContracts neverFails (dbWith [contractOf ''A1'' []])
          [contractOf ''A1'' ''Publicada'']) = None \<and>
   status_changes (snd (SaveContracts neverFails (dbWith [contractOf ''A1'' []])
          [contractOf ''A1'' ''Publicada''])) = [] \<and>
   fst (CheckAndUpdateStatusChanges neverFails (dbWith [contractOf ''A1'' []])
          [contractOf ''A1'' ''Publicada'']) = None \<and>
   map changeTriple
     (status_changes (snd (CheckAndUpdateStatusChanges neverFails (dbWith [contractOf ''A1'' []])
          [contractOf ''A1'' ''Publicada'']))) = [(''A1'', [], ''Publicada'')]"
  by (simp add: SaveContracts_def saveOne_def CheckAndUpdateStatusChanges_def checkOne_def
      neverFails_def dbWith_def contractOf_def insertOrReplace_def updateStatus_def
      insertStatusChange_def changeTriple_def Let_def)

text \<open>
  C6. \<^verbatim>\<open>SaveContracts\<close> is atomic over the batch. Whenever it returns an error, the database
  is in the state it had before the call. When \<^verbatim>\<open>Begin\<close> and the three \<^verbatim>\<open>Prepare\<close> calls
  succeed and the processing of some contract of the batch fails, it returns that error
  and the database is in the state it had before the call.
\<close>

theorem SaveContracts_atomic:
  "(fst (SaveContracts env d cs) \<noteq> None \<longrightarrow> snd (SaveContracts env d cs) = d) \<and>
   (\<forall>e. cs \<noteq> [] \<and> \<not> fails env 0 \<and> \<not> fails env 1 \<and> \<not> fails env 2 \<and> \<not> fails env 3 \<and>
        saveLoop env (d, 4) cs = Inl e \<longrightarrow>
        SaveContracts env d cs = (Some e, d))"
  by (auto simp: SaveContracts_def split: sum.splits)

text \<open>
  In the witness the insert of the second contract fails after the first contract has
  been written inside the transaction.
\<close>

theorem SaveContracts_atomic_witness:
  "saveOne (failAt 7) (dbWith [], 4) (contractOf ''A1'' ''Publicada'') =
     Inr (insertOrReplace 0 (contractOf ''A1'' ''Publicada'') (dbWith []), 6) \<and>
   saveLoop (failAt 7) (dbWith [], 4)
     [contractOf ''A1'' ''Publicada'', contractOf ''A2'' ''Publicada''] =
     Inl (InsertFailed ''A2'') \<and>
   SaveContracts (failAt 7) (dbWith [])
     [contractOf ''A1'' ''Publicada'', contractOf ''A2'' ''Publicada''] =
     (Some (InsertFailed ''A2''), dbWith [])"
proof -
  let ?cs = "[contractOf ''A1'' ''Publicada'', contractOf ''A2'' ''Publicada'']"
  have one: "saveOne (failAt 7) (dbWith [], 4) (contractOf ''A1'' ''Publicada'') =
     Inr (insertOrReplace 0 (contractOf ''A1'' ''Publicada'') (dbWith []), 6)"
    by (simp add: saveOne_def failAt_def clockZero_def dbWith_def contractOf_def Let_def)
  have two: "saveOne (failAt 7) (insertOrReplace 0 (contractOf ''A1'' ''Publicada'') (dbWith []), 6)
      (contractOf ''A2'' ''Publicada'') = Inl (InsertFailed ''A2'')"
    by (simp add: saveOne_def failAt_def contractOf_def Let_def)
  have loop: "saveLoop (failAt 7) (dbWith [], 4) ?cs = Inl (InsertFailed ''A2'')"
    by (simp add: one two)
  have pre: "?cs \<noteq> [] \<and> \<not> fails (failAt 7) 0 \<and> \<not> fails (failAt 7) 1 \<and>
      \<not> fails (failAt 7) 2 \<and> \<not> fails (failAt 7) 3"
    by (simp add: failAt_def)
  show ?thesis
    using SaveContracts_atomic [of "failAt 7" "dbWith []" ?cs] one loop pre by blast
qed

section \<open>Properties of CheckAndUpdateStatusChanges\<close>

lemma checkOne_result:
  assumes "checkOne env (d, k) c = Inr (d', k')"
  shows "dom (contracts d') = dom (contracts d) \<and>
         (\<exists>rows. status_changes d' = status_changes d @ rows \<and>
                 (\<forall>s \<in> set rows. ContractID s \<in> dom (contracts d)))"
  using assms
  by (auto simp: checkOne_def Let_def updateStatus_def insertStatusChange_def
      split: if_splits option.splits)

lemma checkLoop_result:
  "checkLoop env (d, k) cs = Inr (d', k') \<Longrightarrow>
   dom (contracts d') = dom (contracts d) \<and>
   (\<exists>rows. status_changes d' = status_changes d @ rows \<and>
           (\<forall>s \<in> set rows. ContractID s \<in> dom (contracts d)))"
proof (induction cs arbitrary: d k)
  case Nil
  then show ?case by simp
next
  case (Cons c cs)
  from Cons.prems obtain d1 k1 where
    one: "checkOne env (d, k) c = Inr (d1, k1)" and rest: "checkLoop env (d1, k1) cs = Inr (d', k')"
    by (auto split: sum.splits)
  from checkOne_result [OF one] obtain rows1 where
    dom1: "dom (contracts d1) = dom (contracts d)"
    and r1: "status_changes d1 = status_changes d @ rows1"
    and in1: "\<forall>s \<in> set rows1. ContractID s \<in> dom (contracts d)"
    by blast
  from Cons.IH [OF rest] obtain rows2 where
    dom2: "dom (contracts d') = dom (contracts d1)"
    and r2: "status_changes d' = status_changes d1 @ rows2"
    and in2: "\<forall>s \<in> set rows2. ContractID s \<in> dom (contracts d1)"
    by blast
  have "status_changes d' = status_changes d @ (rows1 @ rows2)"
    using r1 r2 by simp
  moreover have "\<forall>s \<in> set (rows1 @ rows2). ContractID s \<in> dom (contracts d)"
    using in1 in2 dom1 by auto
  ultimately show ?case using dom1 dom2 by blast
qed

lemma CheckAndUpdate_result:
  "dom (contracts (snd (CheckAndUpdateStatusChanges env d cs))) = dom (contracts d) \<and>
   (\<exists>rows. status_changes (snd (CheckAndUpdateStatusChanges env d cs)) =
             status_changes d @ rows \<and>
           (\<forall>s \<in> set rows. ContractID s \<in> dom (contracts d)))"
proof (cases "checkLoop env (d, 4) cs")
  case (Inl e)
  then show ?thesis by (simp add: CheckAndUpdateStatusChanges_def)
next
  case (Inr st)
  then have "checkLoop env (d, 4) cs = Inr (fst st, snd st)" by simp
  from checkLoop_result [OF this] Inr show ?thesis
    by (simp add: CheckAndUpdateStatusChanges_def)
qed

text \<open>
  C5. \<^verbatim>\<open>CheckAndUpdateStatusChanges\<close> never creates a contract row: after the call the
  table \<^verbatim>\<open>contracts\<close> has the identifiers it had before. An incoming contract whose
  identifier is absent is skipped, the loop body leaving the state as it is; and for an
  identifier absent from the table, the rows of \<^verbatim>\<open>status_changes\<close> about it are the same
  after the call as before.
\<close>

theorem CheckAndUpdateStatusChanges_never_creates:
  "dom (contracts (snd (CheckAndUpdateStatusChanges env d cs))) = dom (contracts d) \<and>
   (contracts d (ID c) = None \<and> \<not> fails env k \<longrightarrow>
      checkOne env (d, k) c = Inr (d, Suc k)) \<and>
   (contracts d cid = None \<longrightarrow>
      filter (\<lambda>s. ContractID s = cid)
        (status_changes (snd (CheckAndUpdateStatusChanges env d cs))) =
      filter (\<lambda>s. ContractID s = cid) (status_changes d))"
proof -
  from CheckAndUpdate_result [of env d cs] obtain rows where
    dm: "dom (contracts (snd (CheckAndUpdateStatusChanges env d cs))) = dom (contracts d)"
    and r: "status_changes (snd (CheckAndUpdateStatusChanges env d cs)) = status_changes d @ rows"
    and mem: "\<forall>s \<in> set rows. ContractID s \<in> dom (contracts d)"
    by blast
  have skip: "contracts d (ID c) = None \<and> \<not> fails env k \<longrightarrow>
      checkOne env (d, k) c = Inr (d, Suc k)"
    by (simp add: checkOne_def Let_def)
  have "contracts d cid = None \<longrightarrow> filter (\<lambda>s. ContractID s = cid) rows = []"
    using mem by (auto simp: filter_empty_conv)
  with dm r skip show ?thesis by simp
qed

theorem CheckAndUpdateStatusChanges_never_creates_witness:
  "contracts (dbWith [contractOf ''A1'' ''Publicada'']) (ID (contractOf ''B7'' ''Adjudicada'')) = None \<and>
   \<not> fails neverFails 4 \<and>
   dom (contracts (snd (CheckAndUpdateStatusChanges neverFails
          (dbWith [contractOf ''A1'' ''Publicada'']) [contractOf ''B7'' ''Adjudicada'']))) =
     dom (contracts (dbWith [contractOf ''A1'' ''Publicada''])) \<and>
   checkOne neverFails (dbWith [contractOf ''A1'' ''Publicada''], 4)
      (contractOf ''B7'' ''Adjudicada'') =
     Inr (dbWith [contractOf ''A1'' ''Publicada''], Suc 4) \<and>
   filter (\<lambda>s. ContractID s = ''B7'')
     (status_changes (snd (CheckAndUpdateStatusChanges neverFails
          (dbWith [contractOf ''A1'' ''Publicada'']) [contractOf ''B7'' ''Adjudicada'']))) =
     filter (\<lambda>s. ContractID s = ''B7'')
       (status_changes (dbWith [contractOf ''A1'' ''Publicada'']))"
proof -
  have a: "contracts (dbWith [contractOf ''A1'' ''Publicada''])
             (ID (contractOf ''B7'' ''Adjudicada'')) = None"
    by (simp add: dbWith_def contractOf_def)
  have a': "contracts (dbWith [contractOf ''A1'' ''Publicada'']) ''B7'' = None"
    by (simp add: dbWith_def contractOf_def)
  have b: "\<not> fails neverFails 4"
    by (simp add: neverFails_def)
  show ?thesis
    using CheckAndUpdateStatusChanges_never_creates
      [of neverFails "dbWith [contractOf ''A1'' ''Publicada'']"
          "[contractOf ''B7'' ''Adjudicada'']" "contractOf ''B7'' ''Adjudicada''" 4 "''B7''"]
      a a' b
    by simp
qed

section \<open>Properties of the queries\<close>

lemma getNewLoop_Inr:
  "getNewLoop env d k acc cs = Inr r \<Longrightarrow> r = acc @ filter (isNew d) cs"
proof (induction cs arbitrary: k acc)
  case Nil
  then show ?case by simp
next
  case (Cons c cs)
  from Cons.prems have ok: "\<not> fails env k"
    by (auto simp: contractExists_def split: if_splits)
  show ?case
  proof (cases "contracts d (ID c)")
    case None
    with Cons.prems ok have "getNewLoop env d (Suc k) (acc @ [c]) cs = Inr r"
      by (simp add: contractExists_def)
    from Cons.IH [OF this] None show ?thesis by (simp add: isNew_def)
  next
    case (Some row)
    with Cons.prems ok have "getNewLoop env d (Suc k) acc cs = Inr r"
      by (simp add: contractExists_def)
    from Cons.IH [OF this] Some show ?thesis by (simp add: isNew_def)
  qed
qed

lemma getNewLoop_ok:
  "\<forall>j < length cs. \<not> fails env (k + j) \<Longrightarrow>
   getNewLoop env d k acc cs = Inr (acc @ filter (isNew d) cs)"
proof (induction cs arbitrary: k acc)
  case Nil
  show ?case by simp
next
  case (Cons c cs)
  have "\<not> fails env (k + 0)" using Cons.prems by (metis length_greater_0_conv list.distinct(1))
  then have here: "\<not> fails env k" by simp
  have later: "\<forall>j < length cs. \<not> fails env (Suc k + j)"
  proof (intro allI impI)
    fix j assume "j < length cs"
    then have "Suc j < length (c # cs)" by simp
    with Cons.prems have "\<not> fails env (k + Suc j)" by blast
    then show "\<not> fails env (Suc k + j)" by simp
  qed
  show ?case
    using here Cons.IH [OF later]
    by (simp add: contractExists_def isNew_def Let_def split: option.splits)
qed

text \<open>
  C9. Whenever \<^verbatim>\<open>GetNewContracts\<close> returns a slice, it is the incoming contracts whose
  identifier is absent from the table \<^verbatim>\<open>contracts\<close>, in input order; and it does return
  it when none of its queries fails. The status of a contract plays no part in the test.
\<close>

theorem GetNewContracts_absent_ids:
  "(GetNewContracts env d cs = Inr r \<longrightarrow> r = filter (isNew d) cs) \<and>
   ((\<forall>k < length cs. \<not> fails env k) \<longrightarrow>
      GetNewContracts env d cs = Inr (filter (isNew d) cs))"
proof (intro conjI impI)
  assume "GetNewContracts env d cs = Inr r"
  then have "getNewLoop env d 0 [] cs = Inr r" by (simp add: GetNewContracts_def)
  from getNewLoop_Inr [OF this] show "r = filter (isNew d) cs" by simp
next
  assume "\<forall>k < length cs. \<not> fails env k"
  then have "\<forall>j < length cs. \<not> fails env (0 + j)" by simp
  from getNewLoop_ok [OF this, of d "[]"]
  show "GetNewContracts env d cs = Inr (filter (isNew d) cs)"
    by (simp add: GetNewContracts_def)
qed

theorem GetNewContracts_absent_ids_witness:
  "GetNewContracts neverFails (dbWith [contractOf ''A1'' ''Publicada''])
     [contractOf ''A1'' ''Adjudicada'', contractOf ''B7'' ''Resuelta''] =
     Inr [contractOf ''B7'' ''Resuelta'']"
proof -
  let ?cs = "[contractOf ''A1'' ''Adjudicada'', contractOf ''B7'' ''Resuelta'']"
  let ?d = "dbWith [contractOf ''A1'' ''Publicada'']"
  have h: "\<forall>k < length ?cs. \<not> fails neverFails k"
    by (simp add: neverFails_def)
  have a: "isNew ?d (contractOf ''B7'' ''Resuelta'')"
    by (simp add: isNew_def dbWith_def contractOf_def)
  have b: "\<not> isNew ?d (contractOf ''A1'' ''Adjudicada'')"
    by (simp add: isNew_def dbWith_def contractOf_def)
  have f: "filter (isNew ?d) ?cs = [contractOf ''B7'' ''Resuelta'']"
    using a b by simp
  have "GetNewContracts neverFails ?d ?cs = Inr (filter (isNew ?d) ?cs)"
    using GetNewContracts_absent_ids [of neverFails ?d ?cs] h by blast
  with f show ?thesis by simp
qed

text \<open>
  C10. For an identifier that is not in the table \<^verbatim>\<open>contracts\<close>, \<^verbatim>\<open>GetContractByID\<close>
  returns a nil pointer with a nil error, provided the query itself is executed.
\<close>

theorem GetContractByID_absent:
  "contracts d cid = None \<Longrightarrow> \<not> fails env 0 \<Longrightarrow> GetContractByID env d cid = Inr None"
  by (simp add: GetContractByID_def)

theorem GetContractByID_absent_witness:
  "contracts (dbWith [contractOf ''A1'' ''Publicada'']) ''B7'' = None \<and>
   \<not> fails neverFails 0 \<and>
   GetContractByID neverFails (dbWith [contractOf ''A1'' ''Publicada'']) ''B7'' = Inr None"
proof -
  have a: "contracts (dbWith [contractOf ''A1'' ''Publicada'']) ''B7'' = None"
    by (simp add: dbWith_def contractOf_def)
  have b: "\<not> fails neverFails 0"
    by (simp add: neverFails_def)
  show ?thesis
    using GetContractByID_absent [OF a b] a b by simp
qed

section \<open>Properties of the enhancer\<close>

lemma enhanceFrom_length: "length (enhanceFrom sc st j cs) = length cs"
  by (induction cs arbitrary: j) simp_all

lemma enhanceFrom_nth:
  "i < length cs \<Longrightarrow> enhanceFrom sc st j cs ! i = enhanceOne sc st (j + i) (cs ! i)"
proof (induction cs arbitrary: i j)
  case Nil
  then show ?case by simp
next
  case (Cons c cs)
  show ?case
  proof (cases i)
    case 0
    then show ?thesis by simp
  next
    case (Suc n)
    with Cons.prems have "n < length cs" by simp
    from Cons.IH [OF this, of "Suc j"] Suc show ?thesis by simp
  qed
qed

lemma fromScraper_keeps:
  "(PliegoLink e \<noteq> [] \<longrightarrow> PliegoLink (fromScraper sc i l e) \<noteq> []) \<and>
   (AnuncioLink e \<noteq> [] \<longrightarrow> AnuncioLink (fromScraper sc i l e) \<noteq> [])"
  by (auto simp: fromScraper_def Let_def split: option.splits sum.splits prod.splits)

lemma fromScraper_found:
  "sc = Some extractLinks \<Longrightarrow> extractLinks i l = Inr (p, a) \<Longrightarrow>
   (p \<noteq> [] \<longrightarrow> PliegoLink (fromScraper sc i l e) = p) \<and>
   (a \<noteq> [] \<longrightarrow> AnuncioLink (fromScraper sc i l e) = a)"
  by (simp add: fromScraper_def Let_def)

lemma fromStorage_stored:
  "get i (ID c) = Inr (Some ex) \<Longrightarrow>
   (PliegoLink ex \<noteq> [] \<longrightarrow> PliegoLink (fst (fromStorage (ContractStore get) i c)) = PliegoLink ex) \<and>
   (AnuncioLink ex \<noteq> [] \<longrightarrow> AnuncioLink (fst (fromStorage (ContractStore get) i c)) = AnuncioLink ex) \<and>
   (snd (fromStorage (ContractStore get) i c) = (PliegoLink ex \<noteq> [] \<and> AnuncioLink ex \<noteq> []))"
  by (simp add: fromStorage_def)

lemma enhanceOne_unfold:
  "Link c \<noteq> [] \<Longrightarrow>
   enhanceOne sc st i c =
     (if snd (fromStorage st i c) then fst (fromStorage st i c)
      else fromScraper sc i (Link c) (fst (fromStorage st i c)))"
  by (simp add: enhanceOne_def Let_def case_prod_beta)

lemma enhanceOne_keeps:
  assumes "Link c \<noteq> []" and "get i (ID c) = Inr (Some ex)"
  shows "(PliegoLink ex \<noteq> [] \<longrightarrow> PliegoLink (enhanceOne sc (ContractStore get) i c) \<noteq> []) \<and>
         (AnuncioLink ex \<noteq> [] \<longrightarrow> AnuncioLink (enhanceOne sc (ContractStore get) i c) \<noteq> [])"
proof -
  note st = fromStorage_stored [where get = get and i = i and c = c and ex = ex, OF assms(2)]
  note ks = fromScraper_keeps [of "fst (fromStorage (ContractStore get) i c)" sc i "Link c"]
  show ?thesis
    unfolding enhanceOne_unfold [OF assms(1)] using st ks by auto
qed

lemma enhanceOne_found:
  assumes "Link c \<noteq> []" and "get i (ID c) = Inr (Some ex)"
    and "\<not> (PliegoLink ex \<noteq> [] \<and> AnuncioLink ex \<noteq> [])"
    and "extractLinks i (Link c) = Inr (p, a)"
  shows "(p \<noteq> [] \<longrightarrow> PliegoLink (enhanceOne (Some extractLinks) (ContractStore get) i c) = p) \<and>
         (a \<noteq> [] \<longrightarrow> AnuncioLink (enhanceOne (Some extractLinks) (ContractStore get) i c) = a)"
proof -
  note st = fromStorage_stored [where get = get and i = i and c = c and ex = ex, OF assms(2)]
  have "\<not> snd (fromStorage (ContractStore get) i c)"
    using st assms(3) by simp
  then have "enhanceOne (Some extractLinks) (ContractStore get) i c =
      fromScraper (Some extractLinks) i (Link c) (fst (fromStorage (ContractStore get) i c))"
    by (simp add: enhanceOne_unfold [OF assms(1)])
  then show ?thesis
    using fromScraper_found [where sc = "Some extractLinks" and extractLinks = extractLinks and i = i
        and l = "Link c" and p = p and a = a, OF refl assms(4)]
    by simp
qed

lemma enhanceOne_no_link: "Link c = [] \<Longrightarrow> enhanceOne sc st i c = c"
  by (simp add: enhanceOne_def)

lemma fromStorage_no_record:
  "st = NilStorage \<or> st = OtherStorage \<or>
   (\<exists>get. st = ContractStore get \<and> ((\<exists>e. get i (ID c) = Inl e) \<or> get i (ID c) = Inr None)) \<Longrightarrow>
   fromStorage st i c = (c, False)"
  by (auto simp: fromStorage_def)

lemma enhanceOne_no_record:
  assumes "Link c \<noteq> []"
    and "st = NilStorage \<or> st = OtherStorage \<or>
      (\<exists>get. st = ContractStore get \<and> ((\<exists>e. get i (ID c) = Inl e) \<or> get i (ID c) = Inr None))"
  shows "enhanceOne sc st i c = fromScraper sc i (Link c) c"
  using fromStorage_no_record [OF assms(2)] assms(1)
  by (simp add: enhanceOne_unfold)

text \<open>
  C7, amended. For the contract at index \<open>i\<close> of the batch:
  \<^item> when it has no detail-page link, it is returned as it came, whatever the storage and
    the scraper are (the storage is not consulted);
  \<^item> when it has a detail-page link and the storage lookup returns a stored record \<open>ex\<close>: a
    Pliego link that is not empty in \<open>ex\<close> is not empty in the enhanced contract, and
    likewise the Anuncio link; and when \<open>ex\<close> lacks one of the links and the scraper
    answers, every link the scraper found is the link of the enhanced contract;
  \<^item> when it has a detail-page link and no stored record is obtained (no storage, a lookup
    that fails, or no record of that identifier), the enhanced contract is the incoming
    contract with the links the scraper found.
\<close>

theorem enhance_keeps_stored_links:
  assumes "i < length cs"
  shows "(Link (cs ! i) = [] \<longrightarrow>
            EnhanceContractsWithDocumentLinks cs sc st ! i = cs ! i) \<and>
         (Link (cs ! i) \<noteq> [] \<and> st = ContractStore get \<and>
          get i (ID (cs ! i)) = Inr (Some ex) \<longrightarrow>
            (PliegoLink ex \<noteq> [] \<longrightarrow>
               PliegoLink (EnhanceContractsWithDocumentLinks cs sc st ! i) \<noteq> []) \<and>
            (AnuncioLink ex \<noteq> [] \<longrightarrow>
               AnuncioLink (EnhanceContractsWithDocumentLinks cs sc st ! i) \<noteq> []) \<and>
            (\<forall>extractLinks p a.
               sc = Some extractLinks \<and> extractLinks i (Link (cs ! i)) = Inr (p, a) \<and>
               \<not> (PliegoLink ex \<noteq> [] \<and> AnuncioLink ex \<noteq> []) \<longrightarrow>
               (p \<noteq> [] \<longrightarrow>
                  PliegoLink (EnhanceContractsWithDocumentLinks cs sc st ! i) = p) \<and>
               (a \<noteq> [] \<longrightarrow>
                  AnuncioLink (EnhanceContractsWithDocumentLinks cs sc st ! i) = a))) \<and>
         (Link (cs ! i) \<noteq> [] \<and>
          (st = NilStorage \<or> st = OtherStorage \<or>
           (\<exists>lookup. st = ContractStore lookup \<and>
              ((\<exists>e. lookup i (ID (cs ! i)) = Inl e) \<or> lookup i (ID (cs ! i)) = Inr None))) \<longrightarrow>
            EnhanceContractsWithDocumentLinks cs sc st ! i =
              fromScraper sc i (Link (cs ! i)) (cs ! i))"
proof -
  have nth: "EnhanceContractsWithDocumentLinks cs sc st ! i = enhanceOne sc st i (cs ! i)"
    using enhanceFrom_nth [OF assms(1), of sc st 0]
    by (simp add: EnhanceContractsWithDocumentLinks_def)
  have first: "Link (cs ! i) = [] \<longrightarrow> enhanceOne sc st i (cs ! i) = cs ! i"
    by (simp add: enhanceOne_no_link)
  have second: "(PliegoLink ex \<noteq> [] \<longrightarrow> PliegoLink (enhanceOne sc st i (cs ! i)) \<noteq> []) \<and>
      (AnuncioLink ex \<noteq> [] \<longrightarrow> AnuncioLink (enhanceOne sc st i (cs ! i)) \<noteq> []) \<and>
      (\<forall>extractLinks p a.
         sc = Some extractLinks \<and> extractLinks i (Link (cs ! i)) = Inr (p, a) \<and>
         \<not> (PliegoLink ex \<noteq> [] \<and> AnuncioLink ex \<noteq> []) \<longrightarrow>
         (p \<noteq> [] \<longrightarrow> PliegoLink (enhanceOne sc st i (cs ! i)) = p) \<and>
         (a \<noteq> [] \<longrightarrow> AnuncioLink (enhanceOne sc st i (cs ! i)) = a))"
    if link: "Link (cs ! i) \<noteq> []" and st: "st = ContractStore get"
      and rec: "get i (ID (cs ! i)) = Inr (Some ex)"
  proof -
    note keeps = enhanceOne_keeps [where c = "cs ! i" and get = get and i = i and ex = ex
        and sc = sc, OF link rec]
    have found: "(p \<noteq> [] \<longrightarrow>
          PliegoLink (enhanceOne (Some extractLinks) (ContractStore get) i (cs ! i)) = p) \<and>
        (a \<noteq> [] \<longrightarrow>
          AnuncioLink (enhanceOne (Some extractLinks) (ContractStore get) i (cs ! i)) = a)"
      if "extractLinks i (Link (cs ! i)) = Inr (p, a)"
        and "\<not> (PliegoLink ex \<noteq> [] \<and> AnuncioLink ex \<noteq> [])" for extractLinks p a
      using enhanceOne_found [where c = "cs ! i" and get = get and i = i and ex = ex
          and extractLinks = extractLinks and p = p and a = a, OF link rec that(2) that(1)] .
    show ?thesis
      unfolding st using keeps found by blast
  qed
  have third: "enhanceOne sc st i (cs ! i) = fromScraper sc i (Link (cs ! i)) (cs ! i)"
    if "Link (cs ! i) \<noteq> []"
      and "st = NilStorage \<or> st = OtherStorage \<or>
        (\<exists>lookup. st = ContractStore lookup \<and>
           ((\<exists>e. lookup i (ID (cs ! i)) = Inl e) \<or> lookup i (ID (cs ! i)) = Inr None))"
    using enhanceOne_no_record [OF that] .
  show ?thesis
    unfolding nth using first second third by blast
qed

text \<open>
  C7, as stated: for every contract whose stored record holds a Pliego link, the enhanced
  contract has a Pliego link. The database holds the contract \<^verbatim>\<open>A1\<close> with a Pliego link.
  First instance: the incoming contract \<^verbatim>\<open>A1\<close> has no detail-page link; it is returned as
  it came, with an empty Pliego link. Second instance: the incoming contract has a
  detail-page link and the lookup of the stored record fails; the scraper finds the
  Anuncio link only and the enhanced contract has an empty Pliego link.
\<close>

theorem stored_pliego_not_kept:
  "GetContractByID neverFails (dbWith [withPliego (contractOf ''A1'' ''Publicada'')]) ''A1'' =
     Inr (Some (withPliego (contractOf ''A1'' ''Publicada''))) \<and>
   PliegoLink (withPliego (contractOf ''A1'' ''Publicada'')) \<noteq> [] \<and>
   Link (contractOf ''A1'' ''Publicada'') = [] \<and>
   PliegoLink (EnhanceContractsWithDocumentLinks [contractOf ''A1'' ''Publicada''] anuncioScraper
       (storeOf (dbWith [withPliego (contractOf ''A1'' ''Publicada'')])) ! 0) = [] \<and>
   Link (withLink (contractOf ''A1'' ''Publicada'')) \<noteq> [] \<and>
   GetContractByID (failAt 0) (dbWith [withPliego (contractOf ''A1'' ''Publicada'')]) ''A1'' =
     Inl GetContractFailed \<and>
   PliegoLink (EnhanceContractsWithDocumentLinks [withLink (contractOf ''A1'' ''Publicada'')]
       anuncioScraper
       (failingStoreOf (dbWith [withPliego (contractOf ''A1'' ''Publicada'')])) ! 0) = []"
  by (simp add: EnhanceContractsWithDocumentLinks_def enhanceOne_def fromStorage_def
      fromScraper_def anuncioScraper_def storeOf_def failingStoreOf_def GetContractByID_def
      neverFails_def failAt_def dbWith_def withPliego_def withLink_def contractOf_def Let_def)

text \<open>
  In the witness the stored record of \<^verbatim>\<open>A1\<close> has a Pliego link and no Anuncio link, the
  incoming contract has a detail-page link and the scraper finds the Anuncio link only;
  the same contract without its detail-page link is returned as it came.
\<close>

theorem enhance_keeps_stored_links_witness:
  "0 < length [withLink (contractOf ''A1'' ''Publicada'')] \<and>
   Link ([withLink (contractOf ''A1'' ''Publicada'')] ! 0) \<noteq> [] \<and>
   GetContractByID neverFails (dbWith [withPliego (contractOf ''A1'' ''Publicada'')])
       (ID ([withLink (contractOf ''A1'' ''Publicada'')] ! 0)) =
     Inr (Some (withPliego (contractOf ''A1'' ''Publicada''))) \<and>
   PliegoLink (EnhanceContractsWithDocumentLinks [withLink (contractOf ''A1'' ''Publicada'')]
       anuncioScraper (storeOf (dbWith [withPliego (contractOf ''A1'' ''Publicada'')])) ! 0) \<noteq> [] \<and>
   AnuncioLink (EnhanceContractsWithDocumentLinks [withLink (contractOf ''A1'' ''Publicada'')]
       anuncioScraper (storeOf (dbWith [withPliego (contractOf ''A1'' ''Publicada'')])) ! 0) =
     ''/GetDocumentByIdServlet?id=9'' \<and>
   EnhanceContractsWithDocumentLinks [contractOf ''A1'' ''Publicada''] anuncioScraper
       (storeOf (dbWith [withPliego (contractOf ''A1'' ''Publicada'')])) ! 0 =
     contractOf ''A1'' ''Publicada''"
proof -
  let ?cs = "[withLink (contractOf ''A1'' ''Publicada'')]"
  let ?plain = "[contractOf ''A1'' ''Publicada'']"
  let ?d = "dbWith [withPliego (contractOf ''A1'' ''Publicada'')]"
  let ?get = "\<lambda>(i::nat) cid. GetContractByID neverFails ?d cid"
  let ?ex = "withPliego (contractOf ''A1'' ''Publicada'')"
  let ?extractLinks = "\<lambda>(i::nat) (contractLink::string).
     (Inr ([], ''/GetDocumentByIdServlet?id=9'') :: scrapeError + string \<times> string)"
  have h1: "0 < length ?cs" by simp
  have g1: "0 < length ?plain" by simp
  have h2: "Link (?cs ! 0) \<noteq> []" by (simp add: withLink_def)
  have g2: "Link (?plain ! 0) = []" by (simp add: contractOf_def)
  have h3: "?get 0 (ID (?cs ! 0)) = Inr (Some ?ex)"
    by (simp add: GetContractByID_def neverFails_def dbWith_def withPliego_def withLink_def
        contractOf_def)
  have p: "PliegoLink ?ex \<noteq> []" and a: "AnuncioLink ?ex = []"
    by (simp_all add: withPliego_def contractOf_def)
  have sc: "anuncioScraper = Some ?extractLinks" by (simp add: anuncioScraper_def)
  have st: "storeOf ?d = ContractStore ?get" by (simp add: storeOf_def)
  note t = enhance_keeps_stored_links [where i = 0 and cs = ?cs and get = ?get and ex = ?ex
      and sc = anuncioScraper and st = "storeOf ?d", OF h1, THEN conjunct2, THEN conjunct1,
      rule_format, OF conjI [OF h2 conjI [OF st h3]]]
  note t0 = enhance_keeps_stored_links [where i = 0 and cs = ?plain and sc = anuncioScraper
      and st = "storeOf ?d", OF g1, THEN conjunct1, rule_format, OF g2]
  have r1: "PliegoLink (EnhanceContractsWithDocumentLinks ?cs anuncioScraper (storeOf ?d) ! 0) \<noteq> []"
    using t p by blast
  have r2: "AnuncioLink (EnhanceContractsWithDocumentLinks ?cs anuncioScraper (storeOf ?d) ! 0) =
      ''/GetDocumentByIdServlet?id=9''"
    using t sc a by auto
  have r3: "EnhanceContractsWithDocumentLinks ?plain anuncioScraper (storeOf ?d) ! 0 =
      contractOf ''A1'' ''Publicada''"
    using t0 by simp
  show ?thesis using h1 h2 h3 r1 r2 r3 by blast
qed

end
